theory Spec2Isabelle
  imports Main "HOL-Library.Char_ord" "HOL-Library.List_Lexorder"
begin

section \<open>The calendar arithmetic behind the JavaScript \<open>Date\<close> object\<close>

text \<open>
  \<open>calculateRecurringDates\<close> works on \<open>Date\<close> objects. A \<open>Date\<close> holds a time value, the
  number of milliseconds since 1970-01-01T00:00:00Z. The getters and setters \<open>getDate\<close>,
  \<open>setDate\<close>, \<open>getDay\<close>, ... read and write it through the host's local time zone, while
  \<open>toISOString\<close> prints it in UTC. The zone is a parameter \<open>tz\<close> of the model: the local
  offset in minutes east of UTC, constant over time (no daylight saving rules).
  The names below are those of the abstract operations of the ECMAScript
  specification. Time values are unbounded integers here: the limit of
  8.64e15 milliseconds, beyond which JavaScript yields an invalid date, is not modelled.
\<close>

definition msPerDay :: int where
  "msPerDay = 86400000"

definition msPerMinute :: int where
  "msPerMinute = 60000"

definition Day :: "int \<Rightarrow> int" where
  "Day t = t div msPerDay"

definition TimeWithinDay :: "int \<Rightarrow> int" where
  "TimeWithinDay t = t mod msPerDay"

definition isLeapYear :: "int \<Rightarrow> bool" where
  "isLeapYear y = (y mod 4 = 0 \<and> (y mod 100 \<noteq> 0 \<or> y mod 400 = 0))"

definition DayFromYear :: "int \<Rightarrow> int" where
  "DayFromYear y =
     365 * (y - 1970) + (y - 1969) div 4 - (y - 1901) div 100 + (y - 1601) div 400"

definition monthLengths :: "int \<Rightarrow> int list" where
  "monthLengths y =
     [31, if isLeapYear y then 29 else 28, 31, 30, 31, 30, 31, 31, 30, 31, 30, 31]"

text \<open>
  The year of a day number: the largest \<open>y\<close> with \<open>DayFromYear y \<le> d\<close>. It is computed from
  the mean length of a Gregorian year (146097 days in 400 years) and corrected by one.
\<close>

definition YearFromDay :: "int \<Rightarrow> int" where
  "YearFromDay d =
     (let y = 1970 + (d * 400) div 146097
      in if DayFromYear (y + 1) \<le> d then y + 1
         else if d < DayFromYear y then y - 1
         else y)"

text \<open>Month (0-based) and day of the month (1-based) of the \<open>d\<close>-th day (0-based) of a year.\<close>

fun monthDateFrom :: "int list \<Rightarrow> int \<Rightarrow> int \<Rightarrow> int \<times> int" where
  "monthDateFrom [] m d = (m, d + 1)"
| "monthDateFrom (l # ls) m d = (if d < l then (m, d + 1) else monthDateFrom ls (m + 1) (d - l))"

definition YearFromTime :: "int \<Rightarrow> int" where
  "YearFromTime t = YearFromDay (Day t)"

definition MonthFromTime :: "int \<Rightarrow> int" where
  "MonthFromTime t =
     (let y = YearFromTime t in fst (monthDateFrom (monthLengths y) 0 (Day t - DayFromYear y)))"

definition DateFromTime :: "int \<Rightarrow> int" where
  "DateFromTime t =
     (let y = YearFromTime t in snd (monthDateFrom (monthLengths y) 0 (Day t - DayFromYear y)))"

definition WeekDay :: "int \<Rightarrow> int" where
  "WeekDay t = (Day t + 4) mod 7"

definition LocalTime :: "int \<Rightarrow> int \<Rightarrow> int" where
  "LocalTime tz t = t + tz * msPerMinute"

definition UTC :: "int \<Rightarrow> int \<Rightarrow> int" where
  "UTC tz t = t - tz * msPerMinute"

definition MakeTime :: "int \<Rightarrow> int \<Rightarrow> int \<Rightarrow> int \<Rightarrow> int" where
  "MakeTime h m s ms = h * 3600000 + m * 60000 + s * 1000 + ms"

text \<open>
  \<open>MakeDay\<close> takes a 0-based month and any integers for month and day of the month: a month
  outside 0..11 carries into the year, a day outside the month carries into the
  neighbouring months.
\<close>

definition MakeDay :: "int \<Rightarrow> int \<Rightarrow> int \<Rightarrow> int" where
  "MakeDay year month date =
     (let ym = year + month div 12; mn = month mod 12
      in DayFromYear ym + sum_list (take (nat mn) (monthLengths ym)) + date - 1)"

definition MakeDate :: "int \<Rightarrow> int \<Rightarrow> int" where
  "MakeDate day time = day * msPerDay + time"

subsection \<open>The methods of \<open>Date\<close> that the program calls\<close>

text \<open>\<open>new Date(year, month, day)\<close>: local midnight; a year from 0 to 99 means 1900 + year.\<close>

definition newDate :: "int \<Rightarrow> int \<Rightarrow> int \<Rightarrow> int \<Rightarrow> int" where
  "newDate tz year month date =
     (let yr = (if 0 \<le> year \<and> year \<le> 99 then 1900 + year else year)
      in UTC tz (MakeDate (MakeDay yr month date) 0))"

definition getFullYear :: "int \<Rightarrow> int \<Rightarrow> int" where
  "getFullYear tz t = YearFromTime (LocalTime tz t)"

definition getMonth :: "int \<Rightarrow> int \<Rightarrow> int" where
  "getMonth tz t = MonthFromTime (LocalTime tz t)"

definition getDate :: "int \<Rightarrow> int \<Rightarrow> int" where
  "getDate tz t = DateFromTime (LocalTime tz t)"

definition getDay :: "int \<Rightarrow> int \<Rightarrow> int" where
  "getDay tz t = WeekDay (LocalTime tz t)"

definition setDate :: "int \<Rightarrow> int \<Rightarrow> int \<Rightarrow> int" where
  "setDate tz t dt =
     (let l = LocalTime tz t
      in UTC tz (MakeDate (MakeDay (YearFromTime l) (MonthFromTime l) dt) (TimeWithinDay l)))"

definition setMonth :: "int \<Rightarrow> int \<Rightarrow> int \<Rightarrow> int" where
  "setMonth tz t m =
     (let l = LocalTime tz t
      in UTC tz (MakeDate (MakeDay (YearFromTime l) m (DateFromTime l)) (TimeWithinDay l)))"

definition setFullYear :: "int \<Rightarrow> int \<Rightarrow> int \<Rightarrow> int" where
  "setFullYear tz t y =
     (let l = LocalTime tz t
      in UTC tz (MakeDate (MakeDay y (MonthFromTime l) (DateFromTime l)) (TimeWithinDay l)))"

definition setHours :: "int \<Rightarrow> int \<Rightarrow> int \<Rightarrow> int \<Rightarrow> int \<Rightarrow> int \<Rightarrow> int" where
  "setHours tz t h m s ms = UTC tz (MakeDate (Day (LocalTime tz t)) (MakeTime h m s ms))"

text \<open>\<open>getDaysInMonth\<close> of the source: \<open>new Date(year, month + 1, 0).getDate()\<close>.\<close>

definition getDaysInMonth :: "int \<Rightarrow> int \<Rightarrow> int \<Rightarrow> int" where
  "getDaysInMonth tz year month = getDate tz (newDate tz year (month + 1) 0)"

subsection \<open>Date strings\<close>

text \<open>
  \<open>new Date(s + 'T00:00:00')\<close> reads a date-time without offset, which is local time. The
  model accepts the form \<open>YYYY-MM-DD\<close> that a date input field produces, with a month from
  01 to 12 and a day that exists in that month; every other string is an invalid date
  (\<open>None\<close>). What engines do on other strings is implementation-defined.
\<close>

definition digitVal :: "char \<Rightarrow> int option" where
  "digitVal c =
     (let n = (of_char c :: nat) in if 48 \<le> n \<and> n \<le> 57 then Some (int n - 48) else None)"

fun digitsVal :: "string \<Rightarrow> int option" where
  "digitsVal [] = Some 0"
| "digitsVal (c # cs) =
     (case digitVal c of
        None \<Rightarrow> None
      | Some v \<Rightarrow> (case digitsVal cs of
                     None \<Rightarrow> None
                   | Some r \<Rightarrow> Some (v * 10 ^ length cs + r)))"

definition parseISODate :: "string \<Rightarrow> (int \<times> int \<times> int) option" where
  "parseISODate str =
     (if length str = 10 \<and> str ! 4 = CHR ''-'' \<and> str ! 7 = CHR ''-'' then
        (case (digitsVal (take 4 str), digitsVal (take 2 (drop 5 str)), digitsVal (drop 8 str)) of
           (Some y, Some m, Some d) \<Rightarrow>
             if 1 \<le> m \<and> m \<le> 12 \<and> 1 \<le> d \<and> d \<le> monthLengths y ! nat (m - 1)
             then Some (y, m, d) else None
         | _ \<Rightarrow> None)
      else None)"

text \<open>\<open>new Date(str + 'T00:00:00')\<close> with \<open>time = 0\<close>, \<open>new Date(str + 'T23:59:59')\<close> with
  \<open>time = MakeTime 23 59 59 0\<close>.\<close>

definition parseLocal :: "int \<Rightarrow> string \<Rightarrow> int \<Rightarrow> int option" where
  "parseLocal tz str time =
     (case parseISODate str of
        None \<Rightarrow> None
      | Some (y, m, d) \<Rightarrow> Some (UTC tz (MakeDate (MakeDay y (m - 1) d) time)))"

fun padDigits :: "nat \<Rightarrow> nat \<Rightarrow> string" where
  "padDigits 0 n = []"
| "padDigits (Suc w) n = padDigits w (n div 10) @ [''0123456789'' ! (n mod 10)]"

text \<open>
  \<open>d.toISOString().split('T')[0]\<close>: the calendar date of the time value in UTC. Years from
  0 to 9999 print with four digits, all others with a sign and six digits.
\<close>

definition isoYear :: "int \<Rightarrow> string" where
  "isoYear y =
     (if 0 \<le> y \<and> y \<le> 9999 then padDigits 4 (nat y)
      else (if y < 0 then CHR ''-'' else CHR ''+'') # padDigits 6 (nat \<bar>y\<bar>))"

definition toISODate :: "int \<Rightarrow> string" where
  "toISODate t =
     isoYear (YearFromTime t) @ ''-'' @ padDigits 2 (nat (MonthFromTime t + 1))
       @ ''-'' @ padDigits 2 (nat (DateFromTime t))"

section \<open>The recurrence settings\<close>

text \<open>
  The TypeScript interfaces \<open>WeeklyDays\<close>, \<open>MonthlyOnThe\<close> and \<open>RecurringSettings\<close>.
  \<open>frequency\<close> has the four values of its type and \<open>Unsupported\<close> for any other value, which
  reaches the \<open>default\<close> branch of the \<open>switch\<close>. The numbers \<open>interval\<close>, \<open>monthlyOnDay\<close>,
  \<open>week\<close> and \<open>day\<close> are integers (the input fields go through \<open>parseInt\<close>); fractions and
  \<open>NaN\<close> are not modelled. \<open>endDate\<close> is \<open>string | null\<close>.
\<close>

datatype frequency = Daily | Weekly | Monthly | Yearly | Unsupported

datatype monthlyType = OnDay | OnThe

datatype weekOrdinal = Week int | Last

record MonthlyOnThe =
  week :: weekOrdinal
  day :: int

record RecurringSettings =
  frequency :: frequency
  interval :: int
  weeklyDays :: "int \<rightharpoonup> bool"
  monthlyType :: monthlyType
  monthlyOnDay :: int
  monthlyOnThe :: MonthlyOnThe
  startDate :: string
  endDate :: "string option"

section \<open>\<open>calculateRecurringDates\<close>\<close>

definition maxIterations :: nat where
  "maxIterations = 2000"

text \<open>\<open>dates.add(x)\<close> on a JavaScript \<open>Set\<close>, which keeps insertion order.\<close>

definition setAdd :: "string \<Rightarrow> string list \<Rightarrow> string list" where
  "setAdd x ds = (if x \<in> set ds then ds else ds @ [x])"

text \<open>\<open>weeklyDays[dayOfWeek]\<close> is truthy: the key is present and holds \<open>true\<close>.\<close>

definition daySelected :: "(int \<rightharpoonup> bool) \<Rightarrow> int \<Rightarrow> bool" where
  "daySelected wd k = (wd k = Some True)"

text \<open>Reading \<open>xs[i]\<close> from a JavaScript array: \<open>undefined\<close> outside the array.\<close>

definition arrayGet :: "'a list \<Rightarrow> int \<Rightarrow> 'a option" where
  "arrayGet xs i = (if 0 \<le> i \<and> i < int (length xs) then Some (xs ! nat i) else None)"

text \<open>
  The \<open>for\<close> loop of the weekly branch: \<open>n\<close> rounds are left; \<open>start\<close> is
  \<open>new Date(settings.startDate + 'T00:00:00')\<close>.
\<close>

fun weekScan :: "int \<Rightarrow> (int \<rightharpoonup> bool) \<Rightarrow> int \<Rightarrow> int \<Rightarrow> nat \<Rightarrow> int \<Rightarrow> string list
    \<Rightarrow> int \<times> string list" where
  "weekScan tz wd start finalEndDate 0 cur ds = (cur, ds)"
| "weekScan tz wd start finalEndDate (Suc n) cur ds =
     (let dayOfWeek = getDay tz cur;
          ds' = (if daySelected wd dayOfWeek \<and> start \<le> cur \<and> cur \<le> finalEndDate
                 then setAdd (toISODate cur) ds else ds)
      in weekScan tz wd start finalEndDate n (setDate tz cur (getDate tz cur + 1)) ds')"

text \<open>The \<open>'onThe'\<close> branch: the target date in the month of \<open>cur\<close>, if there is one.\<close>

definition onTheDate :: "int \<Rightarrow> MonthlyOnThe \<Rightarrow> int \<Rightarrow> int option" where
  "onTheDate tz ot cur =
     (let y = getFullYear tz cur; m = getMonth tz cur;
          daysInMonthArr = map (\<lambda>i. newDate tz y m (int i + 1)) [0 ..< nat (getDaysInMonth tz y m)];
          matchingDays = filter (\<lambda>d. getDay tz d = day ot) daysInMonthArr
      in case week ot of
           Last \<Rightarrow> arrayGet matchingDays (int (length matchingDays) - 1)
         | Week w \<Rightarrow> arrayGet matchingDays (w - 1))"

text \<open>
  One round of the \<open>while\<close> loop after \<open>iterations++\<close>: the new cursor and the new set of
  dates, or \<open>None\<close> when the \<open>default\<close> branch returns the empty array.
\<close>

definition loopBody :: "int \<Rightarrow> RecurringSettings \<Rightarrow> int \<Rightarrow> int \<Rightarrow> nat \<Rightarrow> int \<Rightarrow> string list
    \<Rightarrow> (int \<times> string list) option" where
  "loopBody tz s start finalEndDate iterations cur ds =
     (case frequency s of
        Daily \<Rightarrow>
          Some (setDate tz cur (getDate tz cur + interval s), setAdd (toISODate cur) ds)
      | Weekly \<Rightarrow>
          (let cur1 = (if iterations = 1 then setDate tz cur (getDate tz cur - getDay tz start)
                       else cur);
               (cur2, ds') = weekScan tz (weeklyDays s) start finalEndDate 7 cur1 ds
           in Some (setDate tz cur2 (getDate tz cur2 + (interval s - 1) * 7), ds'))
      | Monthly \<Rightarrow>
          (let monthDate =
                 (if monthlyType s = OnDay
                  then Some (newDate tz (getFullYear tz cur) (getMonth tz cur) (monthlyOnDay s))
                  else onTheDate tz (monthlyOnThe s) cur);
               ds' = (case monthDate of
                        None \<Rightarrow> ds
                      | Some md \<Rightarrow> if start \<le> md \<and> md \<le> finalEndDate
                                   then setAdd (toISODate md) ds else ds);
               cur1 = setMonth tz cur (getMonth tz cur + interval s)
           in Some (setDate tz cur1 1, ds'))
      | Yearly \<Rightarrow>
          (let yearlyDate = newDate tz (getFullYear tz cur) (getMonth tz start) (getDate tz start);
               ds' = (if start \<le> yearlyDate \<and> yearlyDate \<le> finalEndDate
                      then setAdd (toISODate yearlyDate) ds else ds)
           in Some (setFullYear tz cur (getFullYear tz cur + interval s), ds'))
      | Unsupported \<Rightarrow> None)"

text \<open>
  The \<open>while\<close> loop. Its state is the cursor \<open>current\<close>, the counter \<open>iterations\<close> and the
  set \<open>dates\<close>; it returns the state it stops in, or \<open>None\<close> for the early return.
\<close>

function whileLoop :: "int \<Rightarrow> RecurringSettings \<Rightarrow> int \<Rightarrow> int \<Rightarrow> int \<Rightarrow> nat \<Rightarrow> string list
    \<Rightarrow> (int \<times> nat \<times> string list) option" where
  "whileLoop tz s start finalEndDate cur iterations ds =
     (if cur \<le> finalEndDate \<and> iterations < maxIterations then
        (case loopBody tz s start finalEndDate (iterations + 1) cur ds of
           None \<Rightarrow> None
         | Some (cur', ds') \<Rightarrow> whileLoop tz s start finalEndDate cur' (iterations + 1) ds')
      else Some (cur, iterations, ds))"
  by pat_completeness auto
termination
  by (relation "measure (\<lambda>(tz, s, start, finalEndDate, cur, iterations, ds).
        maxIterations - iterations)") auto

text \<open>
  The statements before the loop: \<open>current\<close> and \<open>finalEndDate\<close>. An empty \<open>endDate\<close> is
  falsy like \<open>null\<close>. The result is \<open>None\<close> when one of the two is an invalid date; the
  loop condition is then false and the loop body never runs.
\<close>

definition initialCursor :: "int \<Rightarrow> RecurringSettings \<Rightarrow> int option" where
  "initialCursor tz s =
     (case parseLocal tz (startDate s) 0 of
        None \<Rightarrow> None
      | Some c \<Rightarrow> Some (setHours tz c 0 0 0 0))"

definition finalEnd :: "int \<Rightarrow> RecurringSettings \<Rightarrow> int \<Rightarrow> int option" where
  "finalEnd tz s cur =
     (let e = (case endDate s of
                 None \<Rightarrow> Some (newDate tz (getFullYear tz cur + 5) 0 1)
               | Some str \<Rightarrow> if str = [] then Some (newDate tz (getFullYear tz cur + 5) 0 1)
                             else parseLocal tz str (MakeTime 23 59 59 0))
      in case e of None \<Rightarrow> None | Some f \<Rightarrow> Some (setHours tz f 23 59 59 999))"

text \<open>
  The run of the loop for a non-empty \<open>startDate\<close>: the final state, \<open>None\<close> for the early
  return of the \<open>default\<close> branch.
\<close>

definition walk :: "int \<Rightarrow> RecurringSettings \<Rightarrow> (int \<times> nat \<times> string list) option" where
  "walk tz s =
     (case initialCursor tz s of
        None \<Rightarrow> Some (0, 0, [])
      | Some cur \<Rightarrow>
          (case finalEnd tz s cur of
             None \<Rightarrow> Some (cur, 0, [])
           | Some fin \<Rightarrow>
               (case parseLocal tz (startDate s) 0 of
                  None \<Rightarrow> Some (cur, 0, [])
                | Some start \<Rightarrow> whileLoop tz s start fin cur 0 [])))"

definition calculateRecurringDates :: "int \<Rightarrow> RecurringSettings \<Rightarrow> string list" where
  "calculateRecurringDates tz s =
     (if startDate s = [] then []
      else case walk tz s of
             None \<Rightarrow> []
           | Some (cur, iterations, ds) \<Rightarrow> sort ds)"

section \<open>The application state around the picker\<close>

text \<open>
  The interfaces \<open>EventType\<close>, \<open>EventAssignment\<close>, \<open>Events\<close> and \<open>SavedData\<close>, and the state
  of the component \<open>App\<close> that the handlers below read and write: \<open>savedData\<close>, \<open>events\<close>
  and \<open>customEventTypes\<close>. The field \<open>id\<close> of \<open>EventType\<close> is \<open>id'\<close> here. The flags that
  only show or hide a dialog are left out.
\<close>

record EventType =
  id' :: string
  title :: string
  color :: string

record EventAssignment =
  typeId :: string
  time :: string

type_synonym Events = "string \<rightharpoonup> EventAssignment"

record SavedData =
  settings :: RecurringSettings
  recurringDates :: "string list"
  events :: Events
  customEventTypes :: "EventType list"

record App =
  savedData :: "SavedData option"
  events :: Events
  customEventTypes :: "EventType list"

definition initialApp :: App where
  "initialApp = \<lparr>savedData = None, events = Map.empty, customEventTypes = []\<rparr>"

text \<open>\<open>[...new Set([...old, ...new])]\<close>: the first occurrence of every date, in order.\<close>

definition unionDates :: "string list \<Rightarrow> string list \<Rightarrow> string list" where
  "unionDates old new = foldl (\<lambda>acc x. setAdd x acc) [] (old @ new)"

text \<open>
  \<open>handleSave\<close> of \<open>App\<close>. The object spread \<open>{ ...events, ...data.events }\<close> is \<open>++\<close> on maps:
  the right operand wins on a common key.
\<close>

definition handleSave :: "App \<Rightarrow> SavedData \<Rightarrow> App" where
  "handleSave st data =
     (let mergedEvents = App.events st ++ SavedData.events data;
          newSavedData =
            \<lparr>settings = settings data,
             recurringDates =
               unionDates (case savedData st of None \<Rightarrow> [] | Some sd \<Rightarrow> recurringDates sd)
                 (recurringDates data),
             SavedData.events = mergedEvents,
             SavedData.customEventTypes = SavedData.customEventTypes data\<rparr>
      in st\<lparr>savedData := Some newSavedData,
            App.events := mergedEvents,
            App.customEventTypes := SavedData.customEventTypes data\<rparr>)"

text \<open>
  \<open>deleteEventType\<close>: \<open>newEvents\<close> is the copy of \<open>events\<close> from which the loop over its keys
  deleted every date whose assignment has the type \<open>i\<close>.
\<close>

definition deleteEventType :: "App \<Rightarrow> string \<Rightarrow> App" where
  "deleteEventType st i =
     (let newEvents =
            (\<lambda>date. case App.events st date of
                       None \<Rightarrow> None
                     | Some a \<Rightarrow> if typeId a = i then None else Some a)
      in st\<lparr>App.customEventTypes := filter (\<lambda>et. id' et \<noteq> i) (App.customEventTypes st),
            App.events := newEvents,
            savedData :=
              (case savedData st of
                 None \<Rightarrow> None
               | Some prev \<Rightarrow>
                   Some (prev\<lparr>SavedData.events := newEvents,
                              SavedData.customEventTypes :=
                                filter (\<lambda>et. id' et \<noteq> i) (SavedData.customEventTypes prev)\<rparr>))\<rparr>)"

definition handleDeleteEvent :: "App \<Rightarrow> string \<Rightarrow> App" where
  "handleDeleteEvent st date =
     (let newEvents = (App.events st)(date := None)
      in st\<lparr>App.events := newEvents,
            savedData :=
              (case savedData st of
                 None \<Rightarrow> None
               | Some prev \<Rightarrow> Some (prev\<lparr>SavedData.events := newEvents\<rparr>))\<rparr>)"

text \<open>
  The saved data, once there is one, holds the same event map as the state \<open>events\<close>: every
  handler writes both together.
\<close>

definition inSync :: "App \<Rightarrow> bool" where
  "inSync st = (case savedData st of None \<Rightarrow> True | Some sd \<Rightarrow> SavedData.events sd = App.events st)"

section \<open>Example settings\<close>

definition exampleSettings :: RecurringSettings where
  "exampleSettings =
     \<lparr>frequency = Daily, interval = 1, weeklyDays = Map.empty, monthlyType = OnDay,
      monthlyOnDay = 15, monthlyOnThe = \<lparr>week = Week 1, day = 0\<rparr>,
      startDate = ''2024-01-01'', endDate = Some ''2024-01-05''\<rparr>"

definition weeklyExample :: RecurringSettings where
  "weeklyExample =
     exampleSettings\<lparr>frequency := Weekly, weeklyDays := [1 \<mapsto> True, 3 \<mapsto> True],
       endDate := Some ''2024-01-14''\<rparr>"

definition lastFridayExample :: RecurringSettings where
  "lastFridayExample =
     exampleSettings\<lparr>frequency := Monthly, monthlyType := OnThe,
       monthlyOnThe := \<lparr>week = Last, day = 5\<rparr>, endDate := Some ''2024-03-31''\<rparr>"

definition yearlyExample :: RecurringSettings where
  "yearlyExample =
     exampleSettings\<lparr>frequency := Yearly, startDate := ''2023-02-28'',
       endDate := Some ''2025-03-01''\<rparr>"

definition monthEndExample :: RecurringSettings where
  "monthEndExample =
     exampleSettings\<lparr>frequency := Monthly, startDate := ''2024-01-31'',
       endDate := Some ''2024-04-30''\<rparr>"

definition exampleApp :: App where
  "exampleApp =
     \<lparr>savedData = Some \<lparr>settings = exampleSettings, recurringDates = [''2024-01-01'', ''2024-01-02''],
         SavedData.events = [''2024-01-01'' \<mapsto> \<lparr>typeId = ''evt_1'', time = ''09:00''\<rparr>,
                   ''2024-01-02'' \<mapsto> \<lparr>typeId = ''evt_2'', time = ''10:00''\<rparr>],
         SavedData.customEventTypes = [\<lparr>id' = ''evt_1'', title = ''Meeting'', color = ''bg-blue-500''\<rparr>,
                             \<lparr>id' = ''evt_2'', title = ''Birthday'', color = ''bg-pink-500''\<rparr>]\<rparr>,
      events = [''2024-01-01'' \<mapsto> \<lparr>typeId = ''evt_1'', time = ''09:00''\<rparr>,
                ''2024-01-02'' \<mapsto> \<lparr>typeId = ''evt_2'', time = ''10:00''\<rparr>],
      customEventTypes = [\<lparr>id' = ''evt_1'', title = ''Meeting'', color = ''bg-blue-500''\<rparr>,
                          \<lparr>id' = ''evt_2'', title = ''Birthday'', color = ''bg-pink-500''\<rparr>]\<rparr>"

definition exampleData :: SavedData where
  "exampleData =
     \<lparr>settings = exampleSettings, recurringDates = [''2024-01-02'', ''2024-01-03''],
      SavedData.events = [''2024-01-02'' \<mapsto> \<lparr>typeId = ''evt_1'', time = ''12:00''\<rparr>,
                ''2024-01-03'' \<mapsto> \<lparr>typeId = ''evt_1'', time = ''12:00''\<rparr>],
      SavedData.customEventTypes = [\<lparr>id' = ''evt_1'', title = ''Meeting'', color = ''bg-blue-500''\<rparr>,
                          \<lparr>id' = ''evt_2'', title = ''Birthday'', color = ''bg-pink-500''\<rparr>]\<rparr>"

section \<open>Properties of the loop\<close>

declare whileLoop.simps [simp del]

lemma distinct_setAdd: "distinct ds \<Longrightarrow> distinct (setAdd x ds)"
  by (simp add: setAdd_def)

lemma distinct_weekScan:
  "weekScan tz wd start fin n cur ds = (cur', ds') \<Longrightarrow> distinct ds \<Longrightarrow> distinct ds'"
  by (induction n arbitrary: cur ds) (auto simp: Let_def distinct_setAdd split: if_splits)

lemma distinct_loopBody:
  assumes "loopBody tz s start fin i cur ds = Some (cur', ds')" and "distinct ds"
  shows "distinct ds'"
proof (cases "frequency s")
  case Daily
  with assms show ?thesis by (auto simp: loopBody_def distinct_setAdd)
next
  case Weekly
  with assms show ?thesis
    by (auto simp: loopBody_def Let_def split: prod.splits if_splits dest: distinct_weekScan)
next
  case Monthly
  with assms show ?thesis
    by (auto simp: loopBody_def Let_def distinct_setAdd split: option.splits if_splits)
next
  case Yearly
  with assms show ?thesis
    by (auto simp: loopBody_def Let_def distinct_setAdd split: if_splits)
next
  case Unsupported
  with assms show ?thesis by (simp add: loopBody_def)
qed

lemma whileLoop_step:
  assumes "cur \<le> fin \<and> i < maxIterations"
    and "whileLoop tz s start fin cur i ds = Some r"
  obtains cur' ds' where "loopBody tz s start fin (i + 1) cur ds = Some (cur', ds')"
    and "whileLoop tz s start fin cur' (i + 1) ds' = Some r"
  using assms by (subst (asm) whileLoop.simps) (auto split: option.splits)

lemma whileLoop_exit:
  "\<not> (cur \<le> fin \<and> i < maxIterations) \<Longrightarrow>
     whileLoop tz s start fin cur i ds = Some (cur, i, ds)"
  by (subst whileLoop.simps) auto

lemma distinct_whileLoop:
  "whileLoop tz s start fin cur i ds = Some (c, n, acc) \<Longrightarrow> distinct ds \<Longrightarrow> distinct acc"
proof (induction tz s start fin cur i ds rule: whileLoop.induct)
  case (1 tz s start fin cur i ds)
  show ?case
  proof (cases "cur \<le> fin \<and> i < maxIterations")
    case False
    with "1.prems" show ?thesis by (simp add: whileLoop_exit)
  next
    case True
    from True "1.prems"(1) obtain cur' ds'
      where b: "loopBody tz s start fin (i + 1) cur ds = Some (cur', ds')"
        and w: "whileLoop tz s start fin cur' (i + 1) ds' = Some (c, n, acc)"
      by (rule whileLoop_step)
    from b "1.prems"(2) have "distinct ds'" by (rule distinct_loopBody)
    with "1.IH" [OF True b refl w] show ?thesis .
  qed
qed

lemma whileLoop_stops:
  "whileLoop tz s start fin cur i ds = Some (c, n, acc) \<Longrightarrow> i \<le> maxIterations \<Longrightarrow>
     i \<le> n \<and> n \<le> maxIterations \<and> (fin < c \<or> n = maxIterations)"
proof (induction tz s start fin cur i ds rule: whileLoop.induct)
  case (1 tz s start fin cur i ds)
  show ?case
  proof (cases "cur \<le> fin \<and> i < maxIterations")
    case False
    with "1.prems" show ?thesis by (auto simp: whileLoop_exit)
  next
    case True
    from True "1.prems"(1) obtain cur' ds'
      where b: "loopBody tz s start fin (i + 1) cur ds = Some (cur', ds')"
        and w: "whileLoop tz s start fin cur' (i + 1) ds' = Some (c, n, acc)"
      by (rule whileLoop_step)
    from True have "i + 1 \<le> maxIterations" by simp
    with "1.IH" [OF True b refl w] show ?thesis by simp
  qed
qed

lemma loopBody_returns:
  "frequency s \<noteq> Unsupported \<Longrightarrow> \<exists>r. loopBody tz s start fin i cur ds = Some r"
  by (cases "frequency s") (auto simp: loopBody_def Let_def split: prod.splits)

lemma whileLoop_returns:
  "frequency s \<noteq> Unsupported \<Longrightarrow> \<exists>r. whileLoop tz s start fin cur i ds = Some r"
proof (induction tz s start fin cur i ds rule: whileLoop.induct)
  case (1 tz s start fin cur i ds)
  show ?case
  proof (cases "cur \<le> fin \<and> i < maxIterations")
    case False
    then show ?thesis by (simp add: whileLoop_exit)
  next
    case True
    from loopBody_returns [OF "1.prems"] obtain cur' ds'
      where b: "loopBody tz s start fin (i + 1) cur ds = Some (cur', ds')" by fastforce
    have "whileLoop tz s start fin cur i ds = whileLoop tz s start fin cur' (i + 1) ds'"
      using True b by (subst whileLoop.simps) simp
    with "1.IH" [OF True b refl "1.prems"] show ?thesis by simp
  qed
qed

lemma distinct_walk: "walk tz s = Some (c, n, acc) \<Longrightarrow> distinct acc"
  by (auto simp: walk_def split: option.splits dest: distinct_whileLoop)

lemma walk_returns: "frequency s \<noteq> Unsupported \<Longrightarrow> \<exists>r. walk tz s = Some r"
  using whileLoop_returns by (auto simp: walk_def split: option.splits)

lemma walk_stops:
  assumes "walk tz s = Some (c, n, acc)"
  shows "n \<le> maxIterations"
    and "initialCursor tz s = Some cur \<Longrightarrow> finalEnd tz s cur = Some fin \<Longrightarrow>
           fin < c \<or> n = maxIterations"
proof -
  show "n \<le> maxIterations"
    using assms whileLoop_stops [of tz s _ _ _ 0 "[]" c n acc]
    by (auto simp: walk_def split: option.splits)
next
  assume ic: "initialCursor tz s = Some cur" and fe: "finalEnd tz s cur = Some fin"
  from ic obtain start where p: "parseLocal tz (startDate s) 0 = Some start"
    by (auto simp: initialCursor_def split: option.splits)
  with assms ic fe have "whileLoop tz s start fin cur 0 [] = Some (c, n, acc)"
    by (simp add: walk_def)
  from whileLoop_stops [OF this] show "fin < c \<or> n = maxIterations" by simp
qed


section \<open>The examples of the specification, in a zone at UTC and in a zone east of it\<close>

text \<open>
  With \<open>tz = 0\<close> the cursor's local midnight is midnight in UTC too, and \<open>toISOString\<close>
  prints the local calendar date. With \<open>tz = 330\<close> (UTC+05:30) local midnight is 18:30 UTC
  of the day before, and every date printed is one day early.
\<close>

lemma daily_example_utc:
  "calculateRecurringDates 0 exampleSettings =
     [''2024-01-01'', ''2024-01-02'', ''2024-01-03'', ''2024-01-04'', ''2024-01-05'']"
  by code_simp

lemma daily_example_east:
  "calculateRecurringDates 330 exampleSettings =
     [''2023-12-31'', ''2024-01-01'', ''2024-01-02'', ''2024-01-03'', ''2024-01-04'']"
  by code_simp

lemma weekly_example_utc:
  "calculateRecurringDates 0 weeklyExample =
     [''2024-01-01'', ''2024-01-03'', ''2024-01-08'', ''2024-01-10'']"
  by code_simp

lemma lastFriday_example_utc:
  "calculateRecurringDates 0 lastFridayExample =
     [''2024-01-26'', ''2024-02-23'', ''2024-03-29'']"
  by code_simp

lemma yearly_example_utc:
  "calculateRecurringDates 0 yearlyExample =
     [''2023-02-28'', ''2024-02-28'', ''2025-02-28'']"
  by code_simp

section \<open>The claims\<close>

text \<open>
  C1. The claim: every date of the result lies between \<open>startDate\<close> and the effective end
  date. The code breaks it in every zone east of UTC: the bounds are checked on the local
  date, and the date is printed in UTC. For the daily example from 2024-01-01 to
  2024-01-05 in the zone UTC+05:30 the result holds 2023-12-31, which is before
  \<open>startDate\<close>.
\<close>

theorem daily_east_of_utc_before_startDate:
  "''2023-12-31'' \<in> set (calculateRecurringDates 330 exampleSettings) \<and>
   ''2023-12-31'' < startDate exampleSettings"
proof -
  have "''2023-12-31'' < startDate exampleSettings"
    by (simp add: exampleSettings_def)
  moreover have "''2023-12-31'' \<in> set (calculateRecurringDates 330 exampleSettings)"
    by (simp add: daily_example_east)
  ultimately show ?thesis by simp
qed

text \<open>
  C2. For all settings and every zone, the result of \<open>calculateRecurringDates\<close> has no
  duplicate and is strictly ascending in the lexicographic order of strings (characters
  compared by their code).
\<close>

theorem result_strictly_ascending:
  "distinct (calculateRecurringDates tz s) \<and> sorted_wrt (<) (calculateRecurringDates tz s)"
proof (cases "walk tz s")
  case None
  then show ?thesis by (simp add: calculateRecurringDates_def)
next
  case (Some r)
  obtain c n acc where r: "r = (c, n, acc)" by (cases r)
  with Some have "distinct acc" by (auto dest: distinct_walk)
  then have "distinct (sort acc) \<and> sorted_wrt (<) (sort acc)"
    by (simp add: strict_sorted_iff)
  with Some r show ?thesis by (simp add: calculateRecurringDates_def)
qed

theorem result_strictly_ascending_witness:
  "distinct (calculateRecurringDates 0 weeklyExample)
     \<and> sorted_wrt (<) (calculateRecurringDates 0 weeklyExample)"
  by (rule result_strictly_ascending)

text \<open>
  C3. For all settings, the loop returns. Either it runs through: then it has made at most
  \<open>maxIterations\<close> = 2000 rounds, it stopped because the cursor is past the final end date
  or because the counter reached 2000, and the result is the sorted set of dates collected
  so far. Or the frequency is none of the four and the first round returns the empty array.
\<close>

theorem walk_within_iteration_cap:
  "(\<exists>c n acc. walk tz s = Some (c, n, acc) \<and> n \<le> maxIterations \<and>
       (\<forall>cur fin. initialCursor tz s = Some cur \<and> finalEnd tz s cur = Some fin
          \<longrightarrow> fin < c \<or> n = maxIterations) \<and>
       (startDate s \<noteq> [] \<longrightarrow> calculateRecurringDates tz s = sort acc))
   \<or> (frequency s = Unsupported \<and> walk tz s = None \<and> calculateRecurringDates tz s = [])"
proof (cases "walk tz s")
  case None
  with walk_returns [of s tz] have "frequency s = Unsupported" by auto
  with None show ?thesis by (simp add: calculateRecurringDates_def)
next
  case (Some r)
  obtain c n acc where r: "r = (c, n, acc)" by (cases r)
  with Some have w: "walk tz s = Some (c, n, acc)" by simp
  from walk_stops [OF w] w show ?thesis
    by (auto simp: calculateRecurringDates_def)
qed

theorem walk_within_iteration_cap_witness:
  "startDate exampleSettings \<noteq> [] \<and>
   (\<exists>c n acc. walk 0 exampleSettings = Some (c, n, acc) \<and> n \<le> maxIterations \<and>
      calculateRecurringDates 0 exampleSettings = sort acc)"
proof -
  have "frequency exampleSettings \<noteq> Unsupported" "startDate exampleSettings \<noteq> []"
    by (simp_all add: exampleSettings_def)
  with walk_within_iteration_cap [of 0 exampleSettings] show ?thesis by auto
qed

text \<open>
  C4. The claim: a monthly schedule visits the start month, then every \<open>interval\<close>-th month
  after it, and skips none. The code calls \<open>setMonth\<close> before \<open>setDate(1)\<close>, so a start day
  that the target month does not have carries the cursor into the month after it. From
  2024-01-31 with interval 1, the first round leaves the cursor on 2024-03-01 (month index
  2): February is never visited, and the 15th of February is missing from the result.
\<close>

theorem monthly_from_month_end_skips_february:
  "initialCursor 0 monthEndExample = Some 1706659200000 \<and>
   finalEnd 0 monthEndExample 1706659200000 = Some 1714521599999 \<and>
   map_option (\<lambda>(c, ds). (getFullYear 0 c, getMonth 0 c, getDate 0 c))
     (loopBody 0 monthEndExample 1706659200000 1714521599999 1 1706659200000 [])
     = Some (2024, 2, 1) \<and>
   calculateRecurringDates 0 monthEndExample = [''2024-03-15'', ''2024-04-15'']"
  by code_simp

text \<open>
  C5. The claim: the weekly example (Mondays and Wednesdays from 2024-01-01 to 2024-01-14)
  gives 2024-01-01, 2024-01-03, 2024-01-08, 2024-01-10. In the zone UTC+05:30 the code
  gives the day before each of them (\<open>weekly_example_utc\<close> is the run at UTC).
\<close>

theorem weekly_example_east_of_utc:
  "calculateRecurringDates 330 weeklyExample =
     [''2023-12-31'', ''2024-01-02'', ''2024-01-07'', ''2024-01-09'']"
  by code_simp

text \<open>
  C6. The claim: the last Friday of January, February and March 2024 is 2024-01-26,
  2024-02-23, 2024-03-29. In the zone UTC+05:30 the code gives the Thursdays before
  (\<open>lastFriday_example_utc\<close> is the run at UTC).
\<close>

theorem lastFriday_example_east_of_utc:
  "calculateRecurringDates 330 lastFridayExample =
     [''2024-01-25'', ''2024-02-22'', ''2024-03-28'']"
  by code_simp

text \<open>
  C7. The claim: the yearly example from 2023-02-28 to 2025-03-01 gives the 28th of
  February of 2023, 2024 and 2025. In the zone UTC+05:30 the code gives the 27th
  (\<open>yearly_example_utc\<close> is the run at UTC).
\<close>

theorem yearly_example_east_of_utc:
  "calculateRecurringDates 330 yearlyExample =
     [''2023-02-27'', ''2024-02-27'', ''2025-02-27'']"
  by code_simp

text \<open>
  C8. With an empty \<open>startDate\<close> the result is the empty array, whatever the other fields
  and the zone are.
\<close>

theorem empty_startDate_gives_empty:
  "startDate s = [] \<Longrightarrow> calculateRecurringDates tz s = []"
  by (simp add: calculateRecurringDates_def)

theorem empty_startDate_gives_empty_witness:
  "startDate (weeklyExample\<lparr>startDate := []\<rparr>) = [] \<and>
   calculateRecurringDates 330 (weeklyExample\<lparr>startDate := []\<rparr>) = []"
  using empty_startDate_gives_empty [of "weeklyExample\<lparr>startDate := []\<rparr>" 330] by simp

section \<open>The handlers of the application state\<close>

lemma inSync_initialApp: "inSync initialApp"
  by (simp add: inSync_def initialApp_def)

lemma inSync_handleSave: "inSync (handleSave st data)"
  by (simp add: inSync_def handleSave_def Let_def)

lemma inSync_deleteEventType: "inSync (deleteEventType st i)"
  by (simp add: inSync_def deleteEventType_def Let_def split: option.splits)

lemma inSync_handleDeleteEvent: "inSync (handleDeleteEvent st date)"
  by (simp add: inSync_def handleDeleteEvent_def Let_def split: option.splits)

text \<open>
  C9. After \<open>handleSave\<close> the event map holds, for every date of the new assignments, the
  new assignment, and for every other date what it held before; its dates are those of
  the old map and of the new assignments together; and the saved data holds the same map.
\<close>

theorem handleSave_merges_events:
  "(\<forall>date a. SavedData.events data date = Some a
      \<longrightarrow> App.events (handleSave st data) date = Some a) \<and>
   (\<forall>date. SavedData.events data date = None
      \<longrightarrow> App.events (handleSave st data) date = App.events st date) \<and>
   dom (App.events (handleSave st data)) = dom (App.events st) \<union> dom (SavedData.events data) \<and>
   (\<exists>sd. savedData (handleSave st data) = Some sd
      \<and> SavedData.events sd = App.events (handleSave st data))"
  by (auto simp: handleSave_def Let_def map_add_def split: option.splits)

theorem handleSave_merges_events_witness:
  "SavedData.events exampleData ''2024-01-02'' = Some \<lparr>typeId = ''evt_1'', time = ''12:00''\<rparr> \<and>
   App.events (handleSave exampleApp exampleData) ''2024-01-02''
     = Some \<lparr>typeId = ''evt_1'', time = ''12:00''\<rparr> \<and>
   SavedData.events exampleData ''2024-01-01'' = None \<and>
   App.events (handleSave exampleApp exampleData) ''2024-01-01''
     = Some \<lparr>typeId = ''evt_1'', time = ''09:00''\<rparr>"
proof -
  have d2: "SavedData.events exampleData ''2024-01-02''
      = Some \<lparr>typeId = ''evt_1'', time = ''12:00''\<rparr>"
    by (simp add: exampleData_def)
  have d1: "SavedData.events exampleData ''2024-01-01'' = None"
    by (simp add: exampleData_def)
  have a1: "App.events exampleApp ''2024-01-01'' = Some \<lparr>typeId = ''evt_1'', time = ''09:00''\<rparr>"
    by (simp add: exampleApp_def)
  note m = handleSave_merges_events [of exampleData exampleApp]
  from m d2 have n2: "App.events (handleSave exampleApp exampleData) ''2024-01-02''
      = Some \<lparr>typeId = ''evt_1'', time = ''12:00''\<rparr>"
    by blast
  from m d1 have "App.events (handleSave exampleApp exampleData) ''2024-01-01''
      = App.events exampleApp ''2024-01-01''"
    by blast
  with a1 d1 d2 n2 show ?thesis by simp
qed

text \<open>
  C10. After \<open>deleteEventType\<close> with the identifier \<open>i\<close>, no event type of the registry has
  the identifier \<open>i\<close>; every assignment left in the event map has another type and is the
  one that was there before; every assignment of another type is still there; and the
  same holds for the registry and the event map of the saved data, when there is one. The
  state is one in which the saved data and the state hold the same event map, as after
  every handler (\<open>inSync_handleSave\<close>, \<open>inSync_deleteEventType\<close>,
  \<open>inSync_handleDeleteEvent\<close>).
\<close>

theorem deleteEventType_cascades:
  assumes "inSync st"
  shows "(\<forall>et \<in> set (App.customEventTypes (deleteEventType st i)). id' et \<noteq> i) \<and>
   (\<forall>date a. App.events (deleteEventType st i) date = Some a
      \<longrightarrow> typeId a \<noteq> i \<and> App.events st date = Some a) \<and>
   (\<forall>date a. App.events st date = Some a \<and> typeId a \<noteq> i
      \<longrightarrow> App.events (deleteEventType st i) date = Some a) \<and>
   (\<forall>sd. savedData st = Some sd \<longrightarrow>
      (\<exists>sd'. savedData (deleteEventType st i) = Some sd' \<and>
         (\<forall>et \<in> set (SavedData.customEventTypes sd'). id' et \<noteq> i) \<and>
         (\<forall>date a. SavedData.events sd' date = Some a
            \<longrightarrow> typeId a \<noteq> i \<and> SavedData.events sd date = Some a) \<and>
         (\<forall>date a. SavedData.events sd date = Some a \<and> typeId a \<noteq> i
            \<longrightarrow> SavedData.events sd' date = Some a)))"
  using assms
  by (auto simp: deleteEventType_def inSync_def Let_def split: option.splits if_splits)

theorem deleteEventType_cascades_witness:
  "inSync exampleApp \<and>
   App.events exampleApp ''2024-01-01'' = Some \<lparr>typeId = ''evt_1'', time = ''09:00''\<rparr> \<and>
   App.events (deleteEventType exampleApp ''evt_1'') ''2024-01-01'' = None \<and>
   App.events (deleteEventType exampleApp ''evt_1'') ''2024-01-02''
     = Some \<lparr>typeId = ''evt_2'', time = ''10:00''\<rparr>"
proof -
  have s: "inSync exampleApp" by (simp add: inSync_def exampleApp_def)
  have e1: "App.events exampleApp ''2024-01-01'' = Some \<lparr>typeId = ''evt_1'', time = ''09:00''\<rparr>"
    by (simp add: exampleApp_def)
  have e2: "App.events exampleApp ''2024-01-02'' = Some \<lparr>typeId = ''evt_2'', time = ''10:00''\<rparr>"
    by (simp add: exampleApp_def)
  note c = deleteEventType_cascades [OF s, of "''evt_1''"]
  have t2: "typeId \<lparr>typeId = ''evt_2'', time = ''10:00''\<rparr> \<noteq> ''evt_1''" by simp
  from c e2 t2 have k: "App.events (deleteEventType exampleApp ''evt_1'') ''2024-01-02''
     = Some \<lparr>typeId = ''evt_2'', time = ''10:00''\<rparr>"
    by blast
  have n: "App.events (deleteEventType exampleApp ''evt_1'') ''2024-01-01'' = None"
  proof (cases "App.events (deleteEventType exampleApp ''evt_1'') ''2024-01-01''")
    case None
    then show ?thesis .
  next
    case (Some a)
    with c have "typeId a \<noteq> ''evt_1''" and "App.events exampleApp ''2024-01-01'' = Some a"
      by blast+
    with e1 show ?thesis by simp
  qed
  from s e1 n k show ?thesis by simp
qed

end
